theory Spec2Isabelle
  imports Main "HOL-Library.Word" "HOL-Library.DAList"
begin

section \<open>The leader-side block generator (core/generator/generator.go)\<close>

text \<open>
  The file under verification declares \<open>Config\<close>, \<open>Generator\<close>, \<open>RemoteSigner\<close>,
  \<open>New\<close>, \<open>Generate\<close>, \<open>Submit\<close> and \<open>GetBlocks\<close>. Everything else it calls lives in
  other packages or other files of the repository: the ledger engine \<open>cos.FC\<close>
  (\<open>Recover\<close>, \<open>AddTx\<close>, \<open>WaitForBlock\<close>), the generator methods \<open>getPendingBlock\<close>,
  \<open>commitBlock\<close> and \<open>MakeBlock\<close>, the database helper \<open>pg.ForQueryRows\<close>, and the
  packages \<open>errors\<close> and \<open>log\<close>. Those operations are parameters of the model: each is a
  function on an arbitrary world state \<open>'w\<close> (durable storage, the network, the context)
  that returns its result together with the new world.
\<close>

subsection \<open>Data\<close>

type_synonym uint64 = "64 word"

text \<open>
  \<open>bc.Block\<close>: generator.go reads only the field \<open>Height\<close>, a \<open>uint64\<close>; the rest of the
  block is kept as an opaque payload. \<open>state.Snapshot\<close> and \<open>bc.Tx\<close> are opaque.
\<close>

record Block =
  Height :: uint64
  Payload :: nat

type_synonym Snapshot = nat
type_synonym Tx = nat

text \<open>
  Go \<open>error\<close> values. \<open>Failure n\<close> is an error produced by one of the external
  operations (\<open>Failure 0\<close> stands for the error of a canceled context),
  \<open>Not_next_height\<close> is the rejection of the commit pipeline, and \<open>Wrap stage e\<close> is
  what \<open>errors.Wrap\<close> and \<open>errors.Wrapf\<close> return: the cause \<open>e\<close> with the message of
  the failing stage in front. The message \<open>"waiting for block at height %d"\<close> carries
  the formatted height.
\<close>

datatype stage = Waiting_for_block_at_height uint64 | Querying_blocks_from_the_db

datatype error = Failure nat | Not_next_height | Wrap stage error

record RemoteSigner =
  URL :: string
  Key :: "8 word list"

text \<open>The operations of \<open>*cos.FC\<close> that generator.go calls. A \<open>nil\<close> pointer is
  \<open>None\<close>; a call that is still suspended when the modelled future ends is \<open>None\<close> at
  the outside of the result of \<open>WaitForBlock\<close>.\<close>

record 'w FC =
  Recover :: "'w \<Rightarrow> (error + Block option \<times> Snapshot option) \<times> 'w"
  AddTx :: "Tx \<Rightarrow> 'w \<Rightarrow> error option \<times> 'w"
  WaitForBlock :: "uint64 \<Rightarrow> 'w \<Rightarrow> (error option \<times> 'w) option"

record 'w Config =
  RemoteSigners :: "RemoteSigner list"
  LocalSigner :: nat
  FC :: "'w FC"

text \<open>\<open>Generator\<close> embeds \<open>Config\<close> and adds the in-memory head.\<close>

record 'w Generator = "'w Config" +
  latestBlock :: "Block option"
  latestSnapshot :: "Snapshot option"

definition New :: "Block option \<Rightarrow> Snapshot option \<Rightarrow> 'w Config \<Rightarrow> 'w Generator" where
  "New block snapshot config =
     Config.extend config (Generator.fields block snapshot)"

text \<open>
  Modelled from the spec: the generator's methods \<open>getPendingBlock\<close>, \<open>commitBlock\<close> and
  \<open>MakeBlock\<close> and the helper \<open>pg.ForQueryRows\<close> are absent from the sources; they are
  parameters, and only their types are fixed here. Section 3 says that the head is
  mutated only by the commit pipeline, so \<open>getPendingBlock\<close> reads the generator and does
  not return a new one. \<open>commitBlock\<close> and \<open>MakeBlock\<close> are called on the pointer \<open>g\<close>
  and may update the generator; their first result is discarded by \<open>Generate\<close>, so only
  the error is kept. \<open>ForQueryRows\<close> gets the text of the query and its argument; it
  returns the rows it handed to the callback before it stopped, and the error it stopped
  with, if any.
\<close>

record 'w deps =
  getPendingBlock :: "'w Generator \<Rightarrow> 'w \<Rightarrow> (error + Block option) \<times> 'w"
  commitBlock :: "'w Generator \<Rightarrow> Block \<Rightarrow> 'w \<Rightarrow> error option \<times> 'w Generator \<times> 'w"
  MakeBlock :: "'w Generator \<Rightarrow> 'w \<Rightarrow> error option \<times> 'w Generator \<times> 'w"
  ForQueryRows :: "string \<Rightarrow> uint64 \<Rightarrow> 'w \<Rightarrow> ((Block list \<times> error option) \<times> 'w) option"

subsection \<open>Generate\<close>

text \<open>
  What \<open>Generate\<close> does that an observer can see: the calls into the commit pipeline and
  into block production, and the log entries.
\<close>

datatype action =
    CommitBlock_called Block
  | MakeBlock_called
  | Log_Fatal error
  | Log_Error error
  | Log_Message string

text \<open>
  Modelled from the spec: package \<open>log\<close> is absent from the sources; section 4.2 and
  section 7 say that a fatal failure terminates the process, so nothing of \<open>Generate\<close>
  runs after \<open>log.Fatal\<close>: the process is \<open>Terminated\<close>. Otherwise \<open>Generate\<close> has
  \<open>Returned\<close>, or it is \<open>Waiting\<close> in \<open>select\<close>.
\<close>

datatype outcome = Terminated | Returned | Waiting

text \<open>The condition of line 75:
  \<open>b != nil && (g.latestBlock == nil || b.Height == g.latestBlock.Height+1)\<close>.\<close>

definition pending_is_next :: "Block option \<Rightarrow> Block option \<Rightarrow> bool" where
  "pending_is_next b latest =
     (case b of
        None \<Rightarrow> False
      | Some pb \<Rightarrow>
          (case latest of None \<Rightarrow> True | Some lb \<Rightarrow> Height pb = Height lb + 1))"

text \<open>Lines 62 to 81: recovery and the pending block. \<open>Inl\<close> is the process ended by
  \<open>log.Fatal\<close>; \<open>Inr\<close> is the generator that enters the loop.\<close>

definition Generate_startup ::
  "'w deps \<Rightarrow> 'w Config \<Rightarrow> 'w \<Rightarrow> ('w \<times> action list) + ('w Generator \<times> 'w \<times> action list)" where
  "Generate_startup d config w =
     (case Recover (FC config) w of
        (Inl err, w1) \<Rightarrow> Inl (w1, [Log_Fatal err])
      | (Inr (recoveredBlock, recoveredSnapshot), w1) \<Rightarrow>
          (let g = New recoveredBlock recoveredSnapshot config in
           case getPendingBlock d g w1 of
             (Inl err, w2) \<Rightarrow> Inl (w2, [Log_Fatal err])
           | (Inr b, w2) \<Rightarrow>
               (if pending_is_next b (latestBlock g)
                then (case commitBlock d g (the b) w2 of
                        (Some err, g', w3) \<Rightarrow>
                          Inl (w3, [CommitBlock_called (the b), Log_Fatal err])
                      | (None, g', w3) \<Rightarrow>
                          Inr (g', w3, [CommitBlock_called (the b)]))
                else Inr (g, w2, []))))"

text \<open>
  Lines 83 to 95: the loop. Each element of the list is the case that one execution of
  the \<open>select\<close> statement takes; when the list is used up the loop is suspended in
  \<open>select\<close>. The context \<open>ctx\<close> belongs to the world, and the \<open>period\<close> only decides
  when the channel of \<open>time.Tick\<close> is ready, which the list records.
\<close>

datatype select_case = Ctx_Done | Tick

fun Generate_loop ::
  "'w deps \<Rightarrow> 'w Generator \<Rightarrow> 'w \<Rightarrow> action list \<Rightarrow> select_case list
     \<Rightarrow> outcome \<times> 'w Generator \<times> 'w \<times> action list" where
  "Generate_loop d g w tr [] = (Waiting, g, w, tr)"
| "Generate_loop d g w tr (Ctx_Done # cs) =
     (Returned, g, w, tr @ [Log_Message ''Deposed, Generate exiting''])"
| "Generate_loop d g w tr (Tick # cs) =
     (case MakeBlock d g w of
        (Some err, g', w') \<Rightarrow>
          Generate_loop d g' w' (tr @ [MakeBlock_called, Log_Error err]) cs
      | (None, g', w') \<Rightarrow>
          Generate_loop d g' w' (tr @ [MakeBlock_called]) cs)"

definition Generate ::
  "'w deps \<Rightarrow> 'w Config \<Rightarrow> select_case list \<Rightarrow> 'w
     \<Rightarrow> outcome \<times> 'w Generator option \<times> 'w \<times> action list" where
  "Generate d config cs w =
     (case Generate_startup d config w of
        Inl (w', tr) \<Rightarrow> (Terminated, None, w', tr)
      | Inr (g, w', tr) \<Rightarrow>
          (case Generate_loop d g w' tr cs of
             (out, g', w'', tr') \<Rightarrow> (out, Some g', w'', tr')))"

subsection \<open>Submit and GetBlocks\<close>

text \<open>Both are methods of \<open>*Config\<close>. Lines 101 to 104.\<close>

definition Submit :: "'w Config \<Rightarrow> Tx \<Rightarrow> 'w \<Rightarrow> error option \<times> 'w" where
  "Submit g tx w = AddTx (FC g) tx w"

definition q :: string where
  "q = ''SELECT data FROM blocks WHERE height > $1 ORDER BY height''"

text \<open>
  Lines 108 to 125. The Go function returns the pair \<open>(blocks, err)\<close>; a \<open>nil\<close> slice is
  the empty list. \<open>afterHeight+1\<close> is an addition of \<open>uint64\<close> and wraps around. The
  outer \<open>None\<close> is a call that is still suspended.
\<close>

definition GetBlocks ::
  "'w deps \<Rightarrow> 'w Config \<Rightarrow> uint64 \<Rightarrow> 'w \<Rightarrow> ((Block list \<times> error option) \<times> 'w) option" where
  "GetBlocks d g afterHeight w =
     (case WaitForBlock (FC g) (afterHeight + 1) w of
        None \<Rightarrow> None
      | Some (Some err, w1) \<Rightarrow>
          Some (([], Some (Wrap (Waiting_for_block_at_height (afterHeight + 1)) err)), w1)
      | Some (None, w1) \<Rightarrow>
          (case ForQueryRows d q afterHeight w1 of
             None \<Rightarrow> None
           | Some ((blocks, Some err), w2) \<Rightarrow>
               Some (([], Some (Wrap Querying_blocks_from_the_db err)), w2)
           | Some ((blocks, None), w2) \<Rightarrow> Some ((blocks, None), w2)))"

text \<open>
  \<open>Generator\<close> embeds \<open>Config\<close>, so Go promotes both methods to \<open>*Generator\<close>: a call
  \<open>g.Submit(ctx, tx)\<close> is \<open>(&g.Config).Submit(ctx, tx)\<close>. The method gets the embedded
  \<open>Config\<close> only; the generator of the caller stays as it is.
\<close>

definition Generator_Submit ::
  "'w Generator \<Rightarrow> Tx \<Rightarrow> 'w \<Rightarrow> error option \<times> 'w Generator \<times> 'w" where
  "Generator_Submit g tx w =
     (case Submit (Config.truncate g) tx w of (err, w') \<Rightarrow> (err, g, w'))"

definition Generator_GetBlocks ::
  "'w deps \<Rightarrow> 'w Generator \<Rightarrow> uint64 \<Rightarrow> 'w
     \<Rightarrow> ((Block list \<times> error option) \<times> 'w Generator \<times> 'w) option" where
  "Generator_GetBlocks d g afterHeight w =
     (case GetBlocks d (Config.truncate g) afterHeight w of
        None \<Rightarrow> None
      | Some (r, w') \<Rightarrow> Some (r, g, w'))"

subsection \<open>The commit pipeline\<close>

text \<open>
  Modelled from the spec: \<open>commitBlock\<close> is absent from the sources. Section 4.3: the
  pipeline applies the candidate to the ledger engine and then updates the head, block
  and snapshot together; it rejects, without applying anything, a candidate whose height
  is not the height of the current head plus one. The ledger engine's own commit is the
  parameter \<open>apply\<close>. The spec has no pipeline without a head; \<open>Generate\<close> commits a
  pending block when there is none (line 75), so the model has nothing to compare then.
\<close>

definition commitBlock_spec ::
  "(Block \<Rightarrow> Snapshot option \<Rightarrow> 'w \<Rightarrow> (error + Snapshot) \<times> 'w)
     \<Rightarrow> 'w Generator \<Rightarrow> Block \<Rightarrow> 'w \<Rightarrow> error option \<times> 'w Generator \<times> 'w" where
  "commitBlock_spec apply g b w =
     (if (case latestBlock g of None \<Rightarrow> False | Some cur \<Rightarrow> Height b \<noteq> Height cur + 1)
      then (Some Not_next_height, g, w)
      else (case apply b (latestSnapshot g) w of
              (Inl err, w') \<Rightarrow> (Some err, g, w')
            | (Inr s, w') \<Rightarrow>
                (None, g\<lparr>latestBlock := Some b, latestSnapshot := Some s\<rparr>, w')))"

subsection \<open>Durable storage\<close>

text \<open>
  Modelled from the spec: the schema of the table \<open>blocks\<close>, \<open>FC.WaitForBlock\<close> and
  \<open>pg.ForQueryRows\<close> are absent from the sources. Section 6: one durable record per
  committed block, retrievable and orderable by height, and height is the ordering key.
  So the table is a finite map from the height of a stored block to the rest of it: the
  column \<open>height\<close> is the height of the block in the column \<open>data\<close>, and no two rows
  have the same height. \<open>WaitForBlock(height)\<close> suspends until the given height is
  durably committed or the caller is canceled; the query returns the stored blocks with
  height greater than a given value, ascending.

  While a call is suspended the rest of the system goes on: \<open>future\<close> lists what
  happens, in order. A block is committed by some process, the context of the caller is
  canceled, or the storage fails (after having delivered some rows, if a query runs).
\<close>

datatype env_event =
    Block_committed Block
  | Context_canceled
  | Storage_error nat

record ledger =
  blocks_table :: "(uint64, nat) alist"
  future :: "env_event list"

text \<open>Modelled from the spec: the block that a row of the table holds, and the blocks
  that the table holds.\<close>

definition row_block :: "uint64 \<times> nat \<Rightarrow> Block" where
  "row_block r = \<lparr>Height = fst r, Payload = snd r\<rparr>"


text \<open>Modelled from the spec: one record per height (section 6), so a second record for a
  height that is stored already is refused.\<close>

definition insert_block :: "Block \<Rightarrow> (uint64, nat) alist \<Rightarrow> (uint64, nat) alist" where
  "insert_block b tbl =
     (if DAList.lookup tbl (Height b) = None then DAList.update (Height b) (Payload b) tbl
      else tbl)"

text \<open>Modelled from the spec: \<open>WaitForBlock(height)\<close> returns at once when the height is
  stored; otherwise it follows the future until the height is committed (no error), the
  context is canceled or the storage fails (an error). It is still suspended when the
  future ends before that.\<close>

fun wait_for ::
  "uint64 \<Rightarrow> (uint64, nat) alist \<Rightarrow> env_event list \<Rightarrow> (error option \<times> ledger) option" where
  "wait_for h tbl [] =
     (if DAList.lookup tbl h \<noteq> None then Some (None, \<lparr>blocks_table = tbl, future = []\<rparr>)
      else None)"
| "wait_for h tbl (e # es) =
     (if DAList.lookup tbl h \<noteq> None then Some (None, \<lparr>blocks_table = tbl, future = e # es\<rparr>)
      else (case e of
              Block_committed b \<Rightarrow> wait_for h (insert_block b tbl) es
            | Context_canceled \<Rightarrow> Some (Some (Failure 0), \<lparr>blocks_table = tbl, future = es\<rparr>)
            | Storage_error n \<Rightarrow> Some (Some (Failure 1), \<lparr>blocks_table = tbl, future = es\<rparr>)))"

text \<open>Modelled from the spec: \<open>FC.WaitForBlock\<close> on the storage model.\<close>

definition ledger_WaitForBlock :: "uint64 \<Rightarrow> ledger \<Rightarrow> (error option \<times> ledger) option" where
  "ledger_WaitForBlock h l = wait_for h (blocks_table l) (future l)"

text \<open>Modelled from the spec: the rows that the query
  \<open>SELECT data FROM blocks WHERE height > $1 ORDER BY height\<close> selects, in its order, and
  the blocks in their column \<open>data\<close>.\<close>

definition rows_after :: "uint64 \<Rightarrow> (uint64, nat) alist \<Rightarrow> (uint64 \<times> nat) list" where
  "rows_after afterHeight tbl =
     sort_key fst (filter (\<lambda>r. afterHeight < fst r) (DAList.impl_of tbl))"

definition blocks_after :: "uint64 \<Rightarrow> (uint64, nat) alist \<Rightarrow> Block list" where
  "blocks_after afterHeight tbl = map row_block (rows_after afterHeight tbl)"

text \<open>Modelled from the spec: blocks committed between the wake-up of the caller and its
  query are in the table that the query reads (scenario 4).\<close>

fun absorb_commits :: "(uint64, nat) alist \<Rightarrow> env_event list \<Rightarrow> ledger" where
  "absorb_commits tbl (Block_committed b # es) = absorb_commits (insert_block b tbl) es"
| "absorb_commits tbl es = \<lparr>blocks_table = tbl, future = es\<rparr>"

text \<open>Modelled from the spec: \<open>pg.ForQueryRows\<close> on the storage model. It hands the column
  \<open>data\<close> of the selected rows to the callback; when the storage fails it has handed over
  the first \<open>n\<close> of them. It knows the query of \<open>GetBlocks\<close> only.\<close>

definition ledger_ForQueryRows ::
  "string \<Rightarrow> uint64 \<Rightarrow> ledger \<Rightarrow> ((Block list \<times> error option) \<times> ledger) option" where
  "ledger_ForQueryRows query afterHeight l =
     (let l1 = absorb_commits (blocks_table l) (future l);
          rows = blocks_after afterHeight (blocks_table l1)
      in if query \<noteq> q then Some (([], Some (Failure 2)), l1)
         else (case future l1 of
                 Context_canceled # es \<Rightarrow> Some (([], Some (Failure 0)), l1\<lparr>future := es\<rparr>)
               | Storage_error n # es \<Rightarrow>
                   Some ((take n rows, Some (Failure 1)), l1\<lparr>future := es\<rparr>)
               | _ \<Rightarrow> Some ((rows, None), l1)))"

subsection \<open>Scenarios\<close>

text \<open>
  Modelled from the spec: a ledger engine and a generator over the storage model, to run
  the scenarios of section 8. Recovery and the query for the pending block return what
  the scenario says. The ledger engine stores a committed block unless the storage
  fails. Block production builds the block that follows the head and commits it through
  the pipeline.
\<close>

definition ledger_apply :: "Block \<Rightarrow> Snapshot option \<Rightarrow> ledger \<Rightarrow> (error + Snapshot) \<times> ledger" where
  "ledger_apply b s l =
     (case future l of
        Storage_error n # es \<Rightarrow> (Inl (Failure 1), l\<lparr>future := es\<rparr>)
      | _ \<Rightarrow>
          (Inr (unat (Height b)),
           l\<lparr>blocks_table := insert_block b (blocks_table l)\<rparr>))"

definition scenario_config :: "error + Block option \<Rightarrow> ledger Config" where
  "scenario_config recovered =
     \<lparr>RemoteSigners = [], LocalSigner = 0,
      FC = \<lparr>Recover = (\<lambda>l. (case recovered of
                                Inl err \<Rightarrow> Inl err
                              | Inr head \<Rightarrow> Inr (head, map_option (\<lambda>b. unat (Height b)) head),
                            l)),
            AddTx = (\<lambda>tx l. (None, l)),
            WaitForBlock = ledger_WaitForBlock\<rparr>\<rparr>"

definition next_block :: "Block option \<Rightarrow> Block" where
  "next_block head =
     (case head of
        None \<Rightarrow> \<lparr>Height = 1, Payload = 0\<rparr>
      | Some cur \<Rightarrow> \<lparr>Height = Height cur + 1, Payload = 0\<rparr>)"

definition scenario_deps :: "error + Block option \<Rightarrow> ledger deps" where
  "scenario_deps pending =
     \<lparr>getPendingBlock = (\<lambda>g l. (pending, l)),
      commitBlock = commitBlock_spec ledger_apply,
      MakeBlock = (\<lambda>g l. commitBlock_spec ledger_apply g (next_block (latestBlock g)) l),
      ForQueryRows = ledger_ForQueryRows\<rparr>"

definition block_at :: "uint64 \<Rightarrow> Block" where
  "block_at h = \<lparr>Height = h, Payload = 0\<rparr>"

definition quiet_ledger :: ledger where
  "quiet_ledger = \<lparr>blocks_table = DAList.empty, future = []\<rparr>"

definition failing_ledger :: ledger where
  "failing_ledger = \<lparr>blocks_table = DAList.empty, future = [Storage_error 0]\<rparr>"

text \<open>Tables and ledgers for the scenarios of the block feed: \<open>stored hs\<close> holds one
  block for each height of \<open>hs\<close>.\<close>

definition stored :: "uint64 list \<Rightarrow> (uint64, nat) alist" where
  "stored hs = foldr (\<lambda>h. insert_block (block_at h)) hs DAList.empty"

definition scenario4_ledger :: ledger where
  "scenario4_ledger =
     \<lparr>blocks_table = stored [20],
      future = [Block_committed (block_at 21), Block_committed (block_at 22)]\<rparr>"

definition canceled_ledger :: ledger where
  "canceled_ledger = \<lparr>blocks_table = stored [20], future = [Context_canceled]\<rparr>"

definition broken_ledger :: ledger where
  "broken_ledger = \<lparr>blocks_table = stored [22, 21, 20], future = [Storage_error 1]\<rparr>"

subsection \<open>Auxiliary definitions and facts\<close>

definition startup_actions ::
  "('w \<times> action list) + ('w Generator \<times> 'w \<times> action list) \<Rightarrow> action list" where
  "startup_actions r = (case r of Inl (w, tr) \<Rightarrow> tr | Inr (g, w, tr) \<Rightarrow> tr)"

definition production_cycles :: "action list \<Rightarrow> nat" where
  "production_cycles tr = length (filter (\<lambda>a. a = MakeBlock_called) tr)"

lemma latestBlock_New: "latestBlock (New b s config) = b"
  by (simp add: New_def Config.extend_def Generator.fields_def)

lemma latestSnapshot_New: "latestSnapshot (New b s config) = s"
  by (simp add: New_def Config.extend_def Generator.fields_def)

lemma truncate_New: "Config.truncate (New b s config) = config"
  by (simp add: New_def Config.extend_def Config.truncate_def Generator.fields_def)

text \<open>Unless the head is at height \<open>2^64 - 1\<close>, the \<open>uint64\<close> comparison of line 75 is
  the comparison of the heights as natural numbers.\<close>

lemma succ_no_wrap:
  fixes x :: uint64
  assumes "x \<noteq> - 1"
  shows "unat (x + 1) = unat x + 1"
proof -
  from assms have "1 + x \<noteq> 0"
    by (metis add.commute add_eq_0_iff)
  then have "unat (1 + x) = Suc (unat x)" by (rule unatSuc)
  then show ?thesis by (simp add: add.commute)
qed

lemma next_height_without_wrap:
  "Height head \<noteq> - 1 \<Longrightarrow> (h = Height head + 1) \<longleftrightarrow> (unat h = unat (Height head) + 1)"
  by (metis succ_no_wrap word_eq_iff_unsigned)

lemma loop_ticks_then_done:
  "Generate_loop d g w tr (replicate n Tick @ Ctx_Done # cs) =
     (case Generate_loop d g w tr (replicate n Tick) of
        (out, g', w', tr') \<Rightarrow>
          (Returned, g', w', tr' @ [Log_Message ''Deposed, Generate exiting'']))"
proof (induction n arbitrary: g w tr)
  case 0
  show ?case by simp
next
  case (Suc n)
  show ?case
  proof (cases "MakeBlock d g w")
    case (fields e g' w')
    then show ?thesis using Suc.IH by (cases e) simp_all
  qed
qed

lemma loop_ticks_cycles:
  "production_cycles (snd (snd (snd (Generate_loop d g w tr (replicate n Tick)))))
     = production_cycles tr + n"
proof (induction n arbitrary: g w tr)
  case 0
  show ?case by simp
next
  case (Suc n)
  show ?case
  proof (cases "MakeBlock d g w")
    case (fields e g' w')
    then show ?thesis using Suc.IH by (cases e) (simp_all add: production_cycles_def)
  qed
qed

lemma loop_not_terminated: "fst (Generate_loop d g w tr cs) \<noteq> Terminated"
proof (induction d g w tr cs rule: Generate_loop.induct)
  case (1 d g w tr)
  show ?case by simp
next
  case (2 d g w tr cs)
  show ?case by simp
next
  case (3 d g w tr cs)
  then show ?case by (auto split: prod.splits option.splits)
qed

lemma startup_no_production:
  "MakeBlock_called \<notin> set (startup_actions (Generate_startup d config w))"
  by (auto simp: Generate_startup_def startup_actions_def Let_def
        split: prod.splits sum.splits option.splits)

lemma Generate_Terminated_iff:
  "fst (Generate d config cs w) = Terminated \<longleftrightarrow> (\<exists>x. Generate_startup d config w = Inl x)"
proof (cases "Generate_startup d config w")
  case (Inl x)
  then show ?thesis by (cases x) (simp add: Generate_def)
next
  case (Inr y)
  obtain g w' tr where y: "y = (g, w', tr)" by (cases y)
  show ?thesis
    using loop_not_terminated [of d g w' tr cs]
    by (auto simp: Generate_def Inr y split: prod.splits)
qed











lemmas eval_ledger = GetBlocks_def scenario_config_def scenario_deps_def ledger_WaitForBlock_def
  ledger_ForQueryRows_def scenario4_ledger_def canceled_ledger_def broken_ledger_def
  rows_after_def blocks_after_def row_block_def insert_block_def block_at_def stored_def
  DAList.lookup_update
  DAList.update.rep_eq DAList.empty.rep_eq Let_def q_def

section \<open>Startup reconciliation\<close>

text \<open>
  C1. Recovery has returned a head block and the query for the pending block has
  returned. If there is a pending block whose height is the height of the recovered head
  plus one (the addition is the \<open>uint64\<close> addition of line 75, see
  \<open>next_height_without_wrap\<close>), the startup is the call of \<open>commitBlock\<close> on the pending
  block, with the generator built from the recovered head and in the world the query
  left: the generator and the world that enter the loop are those that \<open>commitBlock\<close>
  returns, and its error is fatal. In every other case \<open>commitBlock\<close> is not called, and
  the generator that enters the loop is the one built from the recovered head and
  snapshot, in the world the query left. So the pipeline is called if and only if such a
  pending block exists, and only on the pending block.
\<close>

theorem startup_commits_iff_next_height:
  assumes rec: "Recover (FC config) w = (Inr (Some head, snap), w1)"
    and pend: "getPendingBlock d (New (Some head) snap config) w1 = (Inr pending, w2)"
  shows "Generate_startup d config w =
           (case pending of
              None \<Rightarrow> Inr (New (Some head) snap config, w2, [])
            | Some b \<Rightarrow>
                if Height b = Height head + 1
                then (case commitBlock d (New (Some head) snap config) b w2 of
                        (Some err, g', w3) \<Rightarrow> Inl (w3, [CommitBlock_called b, Log_Fatal err])
                      | (None, g', w3) \<Rightarrow> Inr (g', w3, [CommitBlock_called b]))
                else Inr (New (Some head) snap config, w2, []))
       \<and> ((\<exists>b. CommitBlock_called b \<in> set (startup_actions (Generate_startup d config w)))
            \<longleftrightarrow> (\<exists>b. pending = Some b \<and> Height b = Height head + 1))
       \<and> (\<forall>b. CommitBlock_called b \<in> set (startup_actions (Generate_startup d config w))
            \<longrightarrow> pending = Some b)
       \<and> ((\<nexists>b. pending = Some b \<and> Height b = Height head + 1) \<longrightarrow>
            Generate_startup d config w = Inr (New (Some head) snap config, w2, []))"
proof -
  have eq: "Generate_startup d config w =
           (case pending of
              None \<Rightarrow> Inr (New (Some head) snap config, w2, [])
            | Some b \<Rightarrow>
                if Height b = Height head + 1
                then (case commitBlock d (New (Some head) snap config) b w2 of
                        (Some err, g', w3) \<Rightarrow> Inl (w3, [CommitBlock_called b, Log_Fatal err])
                      | (None, g', w3) \<Rightarrow> Inr (g', w3, [CommitBlock_called b]))
                else Inr (New (Some head) snap config, w2, []))"
    using rec pend
    by (auto simp: Generate_startup_def pending_is_next_def latestBlock_New Let_def
          split: option.splits prod.splits)
  have rest: "((\<exists>b. CommitBlock_called b \<in> set (startup_actions (Generate_startup d config w)))
            \<longleftrightarrow> (\<exists>b. pending = Some b \<and> Height b = Height head + 1))
       \<and> (\<forall>b. CommitBlock_called b \<in> set (startup_actions (Generate_startup d config w))
            \<longrightarrow> pending = Some b)
       \<and> ((\<nexists>b. pending = Some b \<and> Height b = Height head + 1) \<longrightarrow>
            Generate_startup d config w = Inr (New (Some head) snap config, w2, []))"
    using rec pend
    by (auto simp: Generate_startup_def startup_actions_def pending_is_next_def
          latestBlock_New Let_def split: option.splits prod.splits)
  from eq rest show ?thesis by blast
qed

text \<open>Scenario 2 of the spec (head 13, pending 14: the pipeline stores block 14 and the
  head of the generator that enters the loop is block 14) and scenario 3 (head 15,
  pending 14: discarded, the head stays block 15 and nothing is stored).\<close>

theorem startup_commits_iff_next_height_witness:
  "(Recover (FC (scenario_config (Inr (Some (block_at 13))))) quiet_ledger
      = (Inr (Some (block_at 13), Some 13), quiet_ledger)
    \<and> getPendingBlock (scenario_deps (Inr (Some (block_at 14))))
        (New (Some (block_at 13)) (Some 13) (scenario_config (Inr (Some (block_at 13))))) quiet_ledger
      = (Inr (Some (block_at 14)), quiet_ledger)
    \<and> commitBlock (scenario_deps (Inr (Some (block_at 14))))
        (New (Some (block_at 13)) (Some 13) (scenario_config (Inr (Some (block_at 13)))))
        (block_at 14) quiet_ledger
      = (None,
         New (Some (block_at 14)) (Some 14) (scenario_config (Inr (Some (block_at 13)))),
         \<lparr>blocks_table = stored [14], future = []\<rparr>)
    \<and> Generate_startup (scenario_deps (Inr (Some (block_at 14))))
         (scenario_config (Inr (Some (block_at 13)))) quiet_ledger
      = Inr (New (Some (block_at 14)) (Some 14) (scenario_config (Inr (Some (block_at 13)))),
             \<lparr>blocks_table = stored [14], future = []\<rparr>, [CommitBlock_called (block_at 14)])
    \<and> CommitBlock_called (block_at 14) \<in> set (startup_actions (Generate_startup
         (scenario_deps (Inr (Some (block_at 14)))) (scenario_config (Inr (Some (block_at 13))))
         quiet_ledger)))
   \<and> (Recover (FC (scenario_config (Inr (Some (block_at 15))))) quiet_ledger
      = (Inr (Some (block_at 15), Some 15), quiet_ledger)
    \<and> getPendingBlock (scenario_deps (Inr (Some (block_at 14))))
        (New (Some (block_at 15)) (Some 15) (scenario_config (Inr (Some (block_at 15))))) quiet_ledger
      = (Inr (Some (block_at 14)), quiet_ledger)
    \<and> Generate_startup (scenario_deps (Inr (Some (block_at 14))))
         (scenario_config (Inr (Some (block_at 15)))) quiet_ledger
      = Inr (New (Some (block_at 15)) (Some 15) (scenario_config (Inr (Some (block_at 15)))),
             quiet_ledger, []))"
proof -
  let ?d = "scenario_deps (Inr (Some (block_at 14)))"
  let ?c13 = "scenario_config (Inr (Some (block_at 13)))"
  let ?c15 = "scenario_config (Inr (Some (block_at 15)))"
  have r13: "Recover (FC ?c13) quiet_ledger = (Inr (Some (block_at 13), Some 13), quiet_ledger)"
    by (simp add: scenario_config_def block_at_def)
  have p13: "getPendingBlock ?d (New (Some (block_at 13)) (Some 13) ?c13) quiet_ledger
      = (Inr (Some (block_at 14)), quiet_ledger)"
    by (simp add: scenario_deps_def)
  have c13: "commitBlock ?d (New (Some (block_at 13)) (Some 13) ?c13) (block_at 14) quiet_ledger
      = (None, New (Some (block_at 14)) (Some 14) ?c13,
         \<lparr>blocks_table = stored [14], future = []\<rparr>)"
    by (simp add: scenario_deps_def commitBlock_spec_def ledger_apply_def quiet_ledger_def
          block_at_def stored_def insert_block_def New_def Config.extend_def
          Generator.fields_def)
  have r15: "Recover (FC ?c15) quiet_ledger = (Inr (Some (block_at 15), Some 15), quiet_ledger)"
    by (simp add: scenario_config_def block_at_def)
  have p15: "getPendingBlock ?d (New (Some (block_at 15)) (Some 15) ?c15) quiet_ledger
      = (Inr (Some (block_at 14)), quiet_ledger)"
    by (simp add: scenario_deps_def)
  have next13: "Height (block_at 14) = Height (block_at 13) + 1"
    by (simp add: block_at_def)
  have not15: "\<nexists>b. Some (block_at 14) = Some b \<and> Height b = Height (block_at 15) + 1"
    by (simp add: block_at_def)
  note t13 = startup_commits_iff_next_height [OF r13 p13]
  note t15 = startup_commits_iff_next_height [OF r15 p15]
  from t13 next13 c13
  have s13: "Generate_startup ?d ?c13 quiet_ledger
      = Inr (New (Some (block_at 14)) (Some 14) ?c13,
             \<lparr>blocks_table = stored [14], future = []\<rparr>, [CommitBlock_called (block_at 14)])"
    by simp
  from t13 next13
  have c: "CommitBlock_called (block_at 14) \<in> set (startup_actions (Generate_startup ?d ?c13 quiet_ledger))"
    by blast
  from t15 not15
  have u: "Generate_startup ?d ?c15 quiet_ledger
      = Inr (New (Some (block_at 15)) (Some 15) ?c15, quiet_ledger, [])"
    by blast
  show ?thesis using r13 p13 c13 s13 r15 p15 c u by blast
qed

text \<open>
  C2. Recovery has returned no head block (\<open>latestBlock == nil\<close>) and there is a pending
  block. Then \<open>Generate\<close> hands the pending block to the commit pipeline during startup,
  whatever its height: the comparison with the height of the head is not made.
\<close>

theorem startup_commits_pending_without_head:
  assumes rec: "Recover (FC config) w = (Inr (None, snap), w1)"
    and pend: "getPendingBlock d (New None snap config) w1 = (Inr (Some b), w2)"
  shows "Generate_startup d config w =
           (case commitBlock d (New None snap config) b w2 of
              (Some err, g', w3) \<Rightarrow> Inl (w3, [CommitBlock_called b, Log_Fatal err])
            | (None, g', w3) \<Rightarrow> Inr (g', w3, [CommitBlock_called b]))
         \<and> CommitBlock_called b \<in> set (startup_actions (Generate_startup d config w))"
  using rec pend
  by (auto simp: Generate_startup_def startup_actions_def pending_is_next_def
        latestBlock_New Let_def split: option.splits prod.splits)

text \<open>No head, pending block of height 7: committed.\<close>

theorem startup_commits_pending_without_head_witness:
  "Recover (FC (scenario_config (Inr None))) quiet_ledger = (Inr (None, None), quiet_ledger)
   \<and> getPendingBlock (scenario_deps (Inr (Some (block_at 7))))
        (New None None (scenario_config (Inr None))) quiet_ledger
      = (Inr (Some (block_at 7)), quiet_ledger)
   \<and> CommitBlock_called (block_at 7) \<in> set (startup_actions (Generate_startup
        (scenario_deps (Inr (Some (block_at 7)))) (scenario_config (Inr None)) quiet_ledger))"
proof -
  have r: "Recover (FC (scenario_config (Inr None))) quiet_ledger
      = (Inr (None, None), quiet_ledger)"
    by (simp add: scenario_config_def)
  have p: "getPendingBlock (scenario_deps (Inr (Some (block_at 7))))
        (New None None (scenario_config (Inr None))) quiet_ledger
      = (Inr (Some (block_at 7)), quiet_ledger)"
    by (simp add: scenario_deps_def)
  from startup_commits_pending_without_head [OF r p] r p show ?thesis by blast
qed

text \<open>
  C7. Each failure of the startup sequence ends the process in \<open>log.Fatal\<close> before the
  loop is entered, whatever the \<open>select\<close> statement would have taken afterwards:
  recovery failing, the query for the pending block failing, and the commit of the
  pending block failing. A process that ended this way has run no production cycle.
\<close>

theorem startup_failure_is_fatal:
  "(Recover (FC config) w = (Inl err, w1) \<longrightarrow>
      Generate d config cs w = (Terminated, None, w1, [Log_Fatal err]))
   \<and> (Recover (FC config) w = (Inr (hb, hs), w1)
        \<and> getPendingBlock d (New hb hs config) w1 = (Inl err, w2) \<longrightarrow>
      Generate d config cs w = (Terminated, None, w2, [Log_Fatal err]))
   \<and> (Recover (FC config) w = (Inr (hb, hs), w1)
        \<and> getPendingBlock d (New hb hs config) w1 = (Inr (Some b), w2)
        \<and> pending_is_next (Some b) hb
        \<and> commitBlock d (New hb hs config) b w2 = (Some err, g', w3) \<longrightarrow>
      Generate d config cs w = (Terminated, None, w3, [CommitBlock_called b, Log_Fatal err]))
   \<and> (fst (Generate d config cs w) = Terminated \<longrightarrow>
      MakeBlock_called \<notin> set (snd (snd (snd (Generate d config cs w)))))"
proof -
  have 1: "Recover (FC config) w = (Inl err, w1) \<longrightarrow>
      Generate d config cs w = (Terminated, None, w1, [Log_Fatal err])"
    by (simp add: Generate_def Generate_startup_def)
  have 2: "Recover (FC config) w = (Inr (hb, hs), w1)
        \<and> getPendingBlock d (New hb hs config) w1 = (Inl err, w2) \<longrightarrow>
      Generate d config cs w = (Terminated, None, w2, [Log_Fatal err])"
    by (simp add: Generate_def Generate_startup_def)
  have 3: "Recover (FC config) w = (Inr (hb, hs), w1)
        \<and> getPendingBlock d (New hb hs config) w1 = (Inr (Some b), w2)
        \<and> pending_is_next (Some b) hb
        \<and> commitBlock d (New hb hs config) b w2 = (Some err, g', w3) \<longrightarrow>
      Generate d config cs w = (Terminated, None, w3, [CommitBlock_called b, Log_Fatal err])"
    by (simp add: Generate_def Generate_startup_def latestBlock_New)
  have 4: "fst (Generate d config cs w) = Terminated \<longrightarrow>
      MakeBlock_called \<notin> set (snd (snd (snd (Generate d config cs w))))"
  proof
    assume "fst (Generate d config cs w) = Terminated"
    then obtain x where x: "Generate_startup d config w = Inl x"
      by (auto simp: Generate_Terminated_iff)
    then show "MakeBlock_called \<notin> set (snd (snd (snd (Generate d config cs w))))"
      using startup_no_production [of d config w]
      by (cases x) (simp add: Generate_def startup_actions_def)
  qed
  from 1 2 3 4 show ?thesis by blast
qed

text \<open>Recovery fails; the query for the pending block fails; the storage fails while
  the pending block 14 is committed on head 13. Two ticks are ready each time.\<close>

theorem startup_failure_is_fatal_witness:
  "(Recover (FC (scenario_config (Inl (Failure 3)))) quiet_ledger = (Inl (Failure 3), quiet_ledger)
    \<and> Generate (scenario_deps (Inr None)) (scenario_config (Inl (Failure 3))) [Tick, Tick] quiet_ledger
        = (Terminated, None, quiet_ledger, [Log_Fatal (Failure 3)]))
   \<and> (Recover (FC (scenario_config (Inr (Some (block_at 13))))) quiet_ledger
        = (Inr (Some (block_at 13), Some 13), quiet_ledger)
    \<and> getPendingBlock (scenario_deps (Inl (Failure 4)))
        (New (Some (block_at 13)) (Some 13) (scenario_config (Inr (Some (block_at 13)))))
        quiet_ledger = (Inl (Failure 4), quiet_ledger)
    \<and> Generate (scenario_deps (Inl (Failure 4))) (scenario_config (Inr (Some (block_at 13))))
        [Tick, Tick] quiet_ledger
        = (Terminated, None, quiet_ledger, [Log_Fatal (Failure 4)]))
   \<and> (Recover (FC (scenario_config (Inr (Some (block_at 13))))) failing_ledger
        = (Inr (Some (block_at 13), Some 13), failing_ledger)
    \<and> getPendingBlock (scenario_deps (Inr (Some (block_at 14))))
        (New (Some (block_at 13)) (Some 13) (scenario_config (Inr (Some (block_at 13)))))
        failing_ledger = (Inr (Some (block_at 14)), failing_ledger)
    \<and> pending_is_next (Some (block_at 14)) (Some (block_at 13))
    \<and> commitBlock (scenario_deps (Inr (Some (block_at 14))))
        (New (Some (block_at 13)) (Some 13) (scenario_config (Inr (Some (block_at 13)))))
        (block_at 14) failing_ledger
        = (Some (Failure 1),
           New (Some (block_at 13)) (Some 13) (scenario_config (Inr (Some (block_at 13)))),
           quiet_ledger)
    \<and> Generate (scenario_deps (Inr (Some (block_at 14))))
        (scenario_config (Inr (Some (block_at 13)))) [Tick, Tick] failing_ledger
        = (Terminated, None, quiet_ledger, [CommitBlock_called (block_at 14), Log_Fatal (Failure 1)])
    \<and> MakeBlock_called \<notin> set (snd (snd (snd (Generate (scenario_deps (Inr (Some (block_at 14))))
        (scenario_config (Inr (Some (block_at 13)))) [Tick, Tick] failing_ledger)))))"
proof -
  let ?c13 = "scenario_config (Inr (Some (block_at 13)))"
  let ?g13 = "New (Some (block_at 13)) (Some 13) ?c13"
  have r1: "Recover (FC (scenario_config (Inl (Failure 3)))) quiet_ledger
      = (Inl (Failure 3), quiet_ledger)"
    by (simp add: scenario_config_def)
  have r2: "Recover (FC ?c13) l = (Inr (Some (block_at 13), Some 13), l)" for l
    by (simp add: scenario_config_def block_at_def)
  have p2: "getPendingBlock (scenario_deps (Inl (Failure 4))) ?g13 quiet_ledger
      = (Inl (Failure 4), quiet_ledger)"
    by (simp add: scenario_deps_def)
  have p3: "getPendingBlock (scenario_deps (Inr (Some (block_at 14)))) ?g13 failing_ledger
      = (Inr (Some (block_at 14)), failing_ledger)"
    by (simp add: scenario_deps_def)
  have n3: "pending_is_next (Some (block_at 14)) (Some (block_at 13))"
    by (simp add: pending_is_next_def block_at_def)
  have c3: "commitBlock (scenario_deps (Inr (Some (block_at 14)))) ?g13 (block_at 14) failing_ledger
      = (Some (Failure 1), ?g13, quiet_ledger)"
    by (simp add: scenario_deps_def commitBlock_spec_def latestBlock_New block_at_def
          ledger_apply_def failing_ledger_def quiet_ledger_def)
  note a = startup_failure_is_fatal [where config = "scenario_config (Inl (Failure 3))"
      and w = quiet_ledger and err = "Failure 3" and ?w1.0 = quiet_ledger
      and d = "scenario_deps (Inr None)" and cs = "[Tick, Tick]"]
  note b = startup_failure_is_fatal [where config = ?c13 and w = quiet_ledger
      and d = "scenario_deps (Inl (Failure 4))" and cs = "[Tick, Tick]"
      and hb = "Some (block_at 13)" and hs = "Some 13" and ?w1.0 = quiet_ledger
      and err = "Failure 4" and ?w2.0 = quiet_ledger]
  note c = startup_failure_is_fatal [where config = ?c13 and w = failing_ledger
      and d = "scenario_deps (Inr (Some (block_at 14)))" and cs = "[Tick, Tick]"
      and hb = "Some (block_at 13)" and hs = "Some 13" and ?w1.0 = failing_ledger
      and ?w2.0 = failing_ledger and b = "block_at 14" and err = "Failure 1"
      and g' = ?g13 and ?w3.0 = quiet_ledger]
  have g1: "Generate (scenario_deps (Inr None)) (scenario_config (Inl (Failure 3))) [Tick, Tick]
      quiet_ledger = (Terminated, None, quiet_ledger, [Log_Fatal (Failure 3)])"
    using a r1 by blast
  have g2: "Generate (scenario_deps (Inl (Failure 4))) ?c13 [Tick, Tick] quiet_ledger
        = (Terminated, None, quiet_ledger, [Log_Fatal (Failure 4)])"
    using b r2 p2 by blast
  have g3: "Generate (scenario_deps (Inr (Some (block_at 14)))) ?c13 [Tick, Tick] failing_ledger
        = (Terminated, None, quiet_ledger, [CommitBlock_called (block_at 14), Log_Fatal (Failure 1)])"
    using c r2 p3 n3 c3 by blast
  have g4: "MakeBlock_called \<notin> set (snd (snd (snd (Generate (scenario_deps (Inr (Some (block_at 14))))
        ?c13 [Tick, Tick] failing_ledger))))"
    using c g3 by simp
  show ?thesis using r1 r2 p2 p3 n3 c3 g1 g2 g3 g4 by blast
qed

section \<open>The main loop\<close>

text \<open>
  C5. After any number of ticks, when the \<open>select\<close> statement takes the case
  \<open>ctx.Done()\<close>, \<open>Generate\<close> returns: the generator, the world and the actions are those
  left by the ticks before, followed by the log message only, whatever is ready after or
  together with the cancellation (the rest \<open>cs\<close> of the list, which may start with a
  tick). The production cycles run are those of the ticks taken before.
\<close>

theorem cancellation_ends_generate:
  "Generate_loop d g w tr (replicate n Tick @ Ctx_Done # cs) =
     (case Generate_loop d g w tr (replicate n Tick) of
        (out, g', w', tr') \<Rightarrow>
          (Returned, g', w', tr' @ [Log_Message ''Deposed, Generate exiting'']))
   \<and> production_cycles (snd (snd (snd (Generate_loop d g w tr (replicate n Tick @ Ctx_Done # cs)))))
       = production_cycles tr + n
   \<and> Generate d config (replicate n Tick @ Ctx_Done # cs) w
       = Generate d config (replicate n Tick @ [Ctx_Done]) w"
proof -
  have a: "Generate_loop d g w tr (replicate n Tick @ Ctx_Done # cs) =
     (case Generate_loop d g w tr (replicate n Tick) of
        (out, g', w', tr') \<Rightarrow>
          (Returned, g', w', tr' @ [Log_Message ''Deposed, Generate exiting'']))" for g w tr cs
    by (rule loop_ticks_then_done)
  have b: "production_cycles (snd (snd (snd (Generate_loop d g w tr (replicate n Tick @ Ctx_Done # cs)))))
       = production_cycles tr + n"
    using loop_ticks_cycles [of d g w tr n]
    by (auto simp: a production_cycles_def split: prod.splits)
  have c: "Generate d config (replicate n Tick @ Ctx_Done # cs) w
       = Generate d config (replicate n Tick @ [Ctx_Done]) w"
    by (simp add: Generate_def a split: sum.splits prod.splits)
  from a b c show ?thesis by blast
qed

text \<open>
  C6. When the production attempt of a tick fails, the loop records the error with
  \<open>log.Error\<close> and goes on with the next \<open>select\<close>, in the state the attempt left; if
  nothing more is ready it waits, having called \<open>MakeBlock\<close> once; the process is not
  terminated.
\<close>

theorem failed_tick_continues:
  assumes "MakeBlock d g w = (Some err, g', w')"
  shows "Generate_loop d g w tr (Tick # cs)
           = Generate_loop d g' w' (tr @ [MakeBlock_called, Log_Error err]) cs
       \<and> Generate_loop d g w tr [Tick]
           = (Waiting, g', w', tr @ [MakeBlock_called, Log_Error err])
       \<and> fst (Generate_loop d g w tr (Tick # cs)) \<noteq> Terminated"
  using assms loop_not_terminated [of d g w tr "Tick # cs"] by simp

text \<open>Head 10 and a storage that fails once: the first tick fails and is logged, the
  loop waits for the second.\<close>

theorem failed_tick_continues_witness:
  "MakeBlock (scenario_deps (Inr None))
      (New (Some (block_at 10)) (Some 10) (scenario_config (Inr None))) failing_ledger
     = (Some (Failure 1), New (Some (block_at 10)) (Some 10) (scenario_config (Inr None)),
        quiet_ledger)
   \<and> Generate_loop (scenario_deps (Inr None))
        (New (Some (block_at 10)) (Some 10) (scenario_config (Inr None))) failing_ledger [] [Tick]
     = (Waiting, New (Some (block_at 10)) (Some 10) (scenario_config (Inr None)), quiet_ledger,
        [MakeBlock_called, Log_Error (Failure 1)])
   \<and> Generate_loop (scenario_deps (Inr None))
        (New (Some (block_at 10)) (Some 10) (scenario_config (Inr None))) failing_ledger []
        [Tick, Tick]
     = Generate_loop (scenario_deps (Inr None))
        (New (Some (block_at 10)) (Some 10) (scenario_config (Inr None))) quiet_ledger
        [MakeBlock_called, Log_Error (Failure 1)] [Tick]"
proof -
  have m: "MakeBlock (scenario_deps (Inr None))
      (New (Some (block_at 10)) (Some 10) (scenario_config (Inr None))) failing_ledger
     = (Some (Failure 1), New (Some (block_at 10)) (Some 10) (scenario_config (Inr None)),
        quiet_ledger)"
    by (simp add: scenario_deps_def commitBlock_spec_def latestBlock_New next_block_def
          block_at_def ledger_apply_def failing_ledger_def quiet_ledger_def)
  from failed_tick_continues [OF m, of "[]" "[Tick]"] m show ?thesis by simp
qed

section \<open>The commit pipeline\<close>

text \<open>
  C3. For every generator with a head, every world and every candidate whose height is
  not the height of the head plus one, the commit pipeline fails and returns the
  generator and the world as they were.
\<close>

theorem commitBlock_spec_rejects:
  assumes "latestBlock g = Some cur" and "Height b \<noteq> Height cur + 1"
  shows "commitBlock_spec apply g b w = (Some Not_next_height, g, w)"
  using assms by (simp add: commitBlock_spec_def)

text \<open>Scenario 3 of the spec: head 15, candidate 14.\<close>

theorem commitBlock_spec_rejects_witness:
  "latestBlock (New (Some (block_at 15)) (Some 15) (scenario_config (Inr None))) = Some (block_at 15)
   \<and> Height (block_at 14) \<noteq> Height (block_at 15) + 1
   \<and> commitBlock_spec ledger_apply (New (Some (block_at 15)) (Some 15) (scenario_config (Inr None)))
        (block_at 14) quiet_ledger
      = (Some Not_next_height, New (Some (block_at 15)) (Some 15) (scenario_config (Inr None)),
         quiet_ledger)"
proof -
  have h: "latestBlock (New (Some (block_at 15)) (Some 15) (scenario_config (Inr None)))
      = Some (block_at 15)"
    by (simp add: latestBlock_New)
  have n: "Height (block_at 14) \<noteq> Height (block_at 15) + 1"
    by (simp add: block_at_def)
  from commitBlock_spec_rejects [OF h n] h n show ?thesis by blast
qed

section \<open>The block feed and the submission gateway\<close>



text \<open>
  C8. Whenever \<open>GetBlocks\<close> returns an error, the list it returns with it is \<open>nil\<close> and
  the error is the cause wrapped with the failing stage. That is what happens when the
  wait for height \<open>afterHeight + 1\<close> fails, and when the query fails, also after it has
  handed rows to the callback.
\<close>

theorem GetBlocks_failure_returns_nil:
  "(GetBlocks d g afterHeight w = Some ((bs, Some e), w') \<longrightarrow>
      bs = [] \<and> (\<exists>cause. e = Wrap (Waiting_for_block_at_height (afterHeight + 1)) cause
                       \<or> e = Wrap Querying_blocks_from_the_db cause))
   \<and> (WaitForBlock (FC g) (afterHeight + 1) w = Some (Some err, w1) \<longrightarrow>
      GetBlocks d g afterHeight w
        = Some (([], Some (Wrap (Waiting_for_block_at_height (afterHeight + 1)) err)), w1))
   \<and> (WaitForBlock (FC g) (afterHeight + 1) w = Some (None, w1)
        \<and> ForQueryRows d q afterHeight w1 = Some ((delivered, Some err), w2) \<longrightarrow>
      GetBlocks d g afterHeight w
        = Some (([], Some (Wrap Querying_blocks_from_the_db err)), w2))"
  by (auto simp: GetBlocks_def split: option.splits prod.splits)

text \<open>The context is canceled during the wait for block 21; the storage fails after
  the query has delivered block 21 of two blocks.\<close>

theorem GetBlocks_failure_returns_nil_witness:
  "(WaitForBlock (FC (scenario_config (Inr None))) (20 + 1) canceled_ledger
      = Some (Some (Failure 0), \<lparr>blocks_table = stored [20], future = []\<rparr>)
    \<and> GetBlocks (scenario_deps (Inr None)) (scenario_config (Inr None)) 20 canceled_ledger
      = Some (([], Some (Wrap (Waiting_for_block_at_height (20 + 1)) (Failure 0))),
              \<lparr>blocks_table = stored [20], future = []\<rparr>))
   \<and> (WaitForBlock (FC (scenario_config (Inr None))) (20 + 1) broken_ledger
      = Some (None, broken_ledger)
    \<and> ForQueryRows (scenario_deps (Inr None)) q 20 broken_ledger
      = Some (([block_at 21], Some (Failure 1)), \<lparr>blocks_table = stored [22, 21, 20], future = []\<rparr>)
    \<and> GetBlocks (scenario_deps (Inr None)) (scenario_config (Inr None)) 20 broken_ledger
      = Some (([], Some (Wrap Querying_blocks_from_the_db (Failure 1))),
              \<lparr>blocks_table = stored [22, 21, 20], future = []\<rparr>))
   \<and> [] = ([] :: Block list)
   \<and> (\<exists>cause. Wrap Querying_blocks_from_the_db (Failure 1)
           = Wrap (Waiting_for_block_at_height (20 + 1)) cause
         \<or> Wrap Querying_blocks_from_the_db (Failure 1) = Wrap Querying_blocks_from_the_db cause)"
proof -
  let ?d = "scenario_deps (Inr None)" and ?g = "scenario_config (Inr None)"
  have w1: "WaitForBlock (FC ?g) (20 + 1) canceled_ledger
      = Some (Some (Failure 0), \<lparr>blocks_table = stored [20], future = []\<rparr>)"
    by (simp add: eval_ledger)
  have w2: "WaitForBlock (FC ?g) (20 + 1) broken_ledger = Some (None, broken_ledger)"
    by (simp add: eval_ledger)
  have f2: "ForQueryRows ?d q 20 broken_ledger
      = Some (([block_at 21], Some (Failure 1)), \<lparr>blocks_table = stored [22, 21, 20], future = []\<rparr>)"
    by (simp add: eval_ledger)
  note a = GetBlocks_failure_returns_nil [where d = ?d and g = ?g and afterHeight = 20
      and w = canceled_ledger and err = "Failure 0"
      and ?w1.0 = "\<lparr>blocks_table = stored [20], future = []\<rparr>"]
  note b = GetBlocks_failure_returns_nil [where d = ?d and g = ?g and afterHeight = 20
      and w = broken_ledger and err = "Failure 1" and ?w1.0 = broken_ledger
      and delivered = "[block_at 21]"
      and ?w2.0 = "\<lparr>blocks_table = stored [22, 21, 20], future = []\<rparr>"
      and bs = "[]" and e = "Wrap Querying_blocks_from_the_db (Failure 1)"
      and w' = "\<lparr>blocks_table = stored [22, 21, 20], future = []\<rparr>"]
  have g1: "GetBlocks ?d ?g 20 canceled_ledger
      = Some (([], Some (Wrap (Waiting_for_block_at_height (20 + 1)) (Failure 0))),
              \<lparr>blocks_table = stored [20], future = []\<rparr>)"
    using a w1 by blast
  have g2: "GetBlocks ?d ?g 20 broken_ledger
      = Some (([], Some (Wrap Querying_blocks_from_the_db (Failure 1))),
              \<lparr>blocks_table = stored [22, 21, 20], future = []\<rparr>)"
    using b w2 f2 by blast
  have g3: "\<exists>cause. Wrap Querying_blocks_from_the_db (Failure 1)
           = Wrap (Waiting_for_block_at_height (20 + 1)) cause
         \<or> Wrap Querying_blocks_from_the_db (Failure 1) = Wrap Querying_blocks_from_the_db cause"
    using b g2 by blast
  show ?thesis using w1 w2 f2 g1 g2 g3 by blast
qed

text \<open>
  C9. \<open>Submit\<close> and \<open>GetBlocks\<close>, called on a generator, get its embedded \<open>Config\<close>:
  their error, their blocks and the world they leave are the same whatever
  \<open>latestBlock\<close> and \<open>latestSnapshot\<close> hold, and the generator is the same after the
  call.
\<close>

theorem handlers_leave_head_alone:
  "Generator_Submit (g\<lparr>latestBlock := b, latestSnapshot := s\<rparr>) tx w
     = (case Generator_Submit g tx w of
          (err, g', w') \<Rightarrow> (err, g'\<lparr>latestBlock := b, latestSnapshot := s\<rparr>, w'))
   \<and> Generator_GetBlocks d (g\<lparr>latestBlock := b, latestSnapshot := s\<rparr>) afterHeight w
     = (case Generator_GetBlocks d g afterHeight w of
          None \<Rightarrow> None
        | Some (r, g', w') \<Rightarrow> Some (r, g'\<lparr>latestBlock := b, latestSnapshot := s\<rparr>, w'))
   \<and> fst (snd (Generator_Submit g tx w)) = g
   \<and> (case Generator_GetBlocks d g afterHeight w of
         None \<Rightarrow> True
       | Some (r, g', w') \<Rightarrow> g' = g)"
  by (auto simp: Generator_Submit_def Generator_GetBlocks_def Config.truncate_def
        split: prod.splits option.splits)

text \<open>
  C10. For \<open>afterHeight\<close> \<open>2^64 - 1\<close> the wait target \<open>afterHeight + 1\<close> is 0:
  \<open>GetBlocks\<close> calls \<open>WaitForBlock\<close> with height 0, and names height 0 in the error if the
  wait fails. On a storage that holds the blocks 0 and 1 the call returns at once,
  without an error, the empty list.
\<close>

theorem GetBlocks_wraps_at_max_height:
  "(18446744073709551615 :: uint64) = 2 ^ 64 - 1
   \<and> GetBlocks d g 18446744073709551615 w =
     (case WaitForBlock (FC g) 0 w of
        None \<Rightarrow> None
      | Some (Some err, w1) \<Rightarrow>
          Some (([], Some (Wrap (Waiting_for_block_at_height 0) err)), w1)
      | Some (None, w1) \<Rightarrow>
          (case ForQueryRows d q 18446744073709551615 w1 of
             None \<Rightarrow> None
           | Some ((blocks, Some err), w2) \<Rightarrow>
               Some (([], Some (Wrap Querying_blocks_from_the_db err)), w2)
           | Some ((blocks, None), w2) \<Rightarrow> Some ((blocks, None), w2)))
   \<and> GetBlocks (scenario_deps (Inr None)) (scenario_config (Inr None)) 18446744073709551615
        \<lparr>blocks_table = stored [1, 0], future = []\<rparr>
     = Some (([], None), \<lparr>blocks_table = stored [1, 0], future = []\<rparr>)"
proof -
  have m: "(18446744073709551615 :: uint64) = 2 ^ 64 - 1" by simp
  have z: "(18446744073709551615 :: uint64) + 1 = 0" by simp
  show ?thesis
    unfolding GetBlocks_def z
    by (simp add: eval_ledger)
qed

end
